theory Spec2Isabelle
  imports Main
begin

section \<open>Syntax-tree nodes and JavaScript values\<close>

text \<open>
  The class \<^verbatim>\<open>MacroBuilder\<close> of \<^verbatim>\<open>src/lib/utils/macro-builder.js\<close> works on the
  nodes of the host framework's syntax tree. The node shapes the builder constructs
  or inspects are modelled; every other shape is an \<open>OtherNode\<close> tagged with its
  type. A property of an object literal is a plain one with a key and a value, a
  method with a key, or a spread property; an import specifier is a named one,
  \<^verbatim>\<open>{ imported as local }\<close>.

  Modelled are the constructor, \<^verbatim>\<open>injectFlags\<close>, \<^verbatim>\<open>_injectDebug\<close>,
  \<^verbatim>\<open>inlineEnvFlags\<close>, \<^verbatim>\<open>generateFlagConstants\<close>, \<^verbatim>\<open>_hasDebugModule\<close>, \<^verbatim>\<open>_expand\<close>,
  \<^verbatim>\<open>_cleanImports\<close>, the three builders \<^verbatim>\<open>_warn\<close>, \<^verbatim>\<open>_deprecate\<close> and \<^verbatim>\<open>_assert\<close>,
  and the helpers they call. The dispatcher \<^verbatim>\<open>buildExpression\<close>, \<^verbatim>\<open>collectSpecifiers\<close>
  and \<^verbatim>\<open>inlineFeatureFlags\<close> are not.
\<close>

record specifier =
  imported :: string
  local :: string

datatype node =
    Identifier string
  | StringLiteral string
  | NumericLiteral int
  | BooleanLiteral bool
  | NullLiteral
  | MemberExpression node node
  | CallExpression node "node list"
  | LogicalExpression string node node
  | ParenthesizedExpression node
  | ObjectExpression "property list"
  | VariableDeclarator node node
  | VariableDeclaration string "node list"
  | ExpressionStatement node
  | ImportDeclaration "specifier list" string
  | OtherNode string
and property =
    ObjectProperty node node
  | ObjectMethod node
  | SpreadProperty node

text \<open>
  The values a property read can give: \<^verbatim>\<open>undefined\<close>, \<^verbatim>\<open>null\<close>, a boolean,
  a number (integers only) or a string.
\<close>

datatype jsval = JUndefined | JNull | JBool bool | JNum int | JStr string

text \<open>
  What a method can throw: the \<^verbatim>\<open>Error\<close> of line 77, the \<^verbatim>\<open>ReferenceError\<close>
  of lines 171 and 175, and the \<^verbatim>\<open>TypeError\<close> of the language or of a node builder
  of the host for a value of the wrong shape.
\<close>

datatype error = Error string | ReferenceError string | TypeError

text \<open>
  What the builder takes from outside the repository: the version-range predicate
  \<^verbatim>\<open>satisfies\<close> of semver (line 1), and the conversion of a number to a string that
  a template literal performs.
\<close>

record host =
  satisfies :: "string \<Rightarrow> string \<Rightarrow> bool"
  numberToString :: "int \<Rightarrow> string"

text \<open>Truthiness, as \<^verbatim>\<open>!x\<close>, \<^verbatim>\<open>if (x)\<close> and \<^verbatim>\<open>x ? a : b\<close> test it.\<close>

fun truthy :: "jsval \<Rightarrow> bool" where
  "truthy JUndefined = False"
| "truthy JNull = False"
| "truthy (JBool b) = b"
| "truthy (JNum n) = (n \<noteq> 0)"
| "truthy (JStr s) = (s \<noteq> [])"

text \<open>The string a template literal substitutes for a value.\<close>

fun toString :: "host \<Rightarrow> jsval \<Rightarrow> string" where
  "toString h JUndefined = ''undefined''"
| "toString h JNull = ''null''"
| "toString h (JBool b) = (if b then ''true'' else ''false'')"
| "toString h (JNum n) = numberToString h n"
| "toString h (JStr s) = s"

text \<open>\<^verbatim>\<open>node.value\<close>: the value of a literal, \<^verbatim>\<open>undefined\<close> on any other node.\<close>

fun value_of :: "node \<Rightarrow> jsval" where
  "value_of (StringLiteral s) = JStr s"
| "value_of (NumericLiteral n) = JNum n"
| "value_of (BooleanLiteral b) = JBool b"
| "value_of _ = JUndefined"

text \<open>
  \<^verbatim>\<open>key.name\<close> used as a property key (line 167): the name of an identifier; on any
  other node the read gives \<^verbatim>\<open>undefined\<close>, which as a key is the string "undefined".
\<close>

fun name_key :: "node \<Rightarrow> string" where
  "name_key (Identifier n) = n"
| "name_key _ = ''undefined''"

text \<open>\<^verbatim>\<open>t.isIdentifier(node)\<close>.\<close>

fun isIdentifier :: "node \<Rightarrow> bool" where
  "isIdentifier (Identifier n) = True"
| "isIdentifier _ = False"

section \<open>Paths, scopes and the tree edits issued to the host\<close>

text \<open>
  A path is a position of the tree (\<open>ref\<close>) together with the node found there.
  The host's tree is not modelled: the builder's effect on it is the sequence of the
  edit primitives it calls (\<^verbatim>\<open>replaceWith\<close>, \<^verbatim>\<open>remove\<close>, \<^verbatim>\<open>replaceWithMultiple\<close>,
  \<^verbatim>\<open>body.unshift\<close>, and the assignment to \<^verbatim>\<open>source.value\<close>), each with the position
  it is called on, kept in order in the field \<open>edits\<close> of the state.
\<close>

record path =
  ref :: nat
  node :: node

datatype edit =
    ReplaceWith nat node
  | Remove nat
  | ReplaceWithMultiple nat "node list"
  | Unshift nat node
  | SetSourceValue nat string

text \<open>
  A binding of a scope: its kind, and the path of the statement that declares it
  (\<^verbatim>\<open>binding.path.parentPath\<close>, whose node is \<^verbatim>\<open>binding.path.parent\<close>). Of a
  scope the builder uses \<^verbatim>\<open>getBinding\<close> and \<^verbatim>\<open>generateUidIdentifier\<close>, which gives the
  name of the identifier it makes.
\<close>

record binding =
  kind :: string
  parentPath :: path

record scope =
  getBinding :: "string \<Rightarrow> binding option"
  generateUidIdentifier :: "string \<Rightarrow> string"

section \<open>The builder's state\<close>

text \<open>
  The closure returned by \<^verbatim>\<open>_buildLogicalExpressions\<close> captures the array
  \<open>identifiers\<close> and the node \<open>callExpression\<close>; it is represented by what it
  captures. The array is mutable and each call of the closure changes it. No other
  code holds the array: the callers pass a fresh one (lines 152, 195 and 216).
\<close>

record closure =
  identifiers :: "node list"
  callExpression :: node

record helpers =
  global :: "string option"
  module :: "string option"

text \<open>
  The fields of \<^verbatim>\<open>MacroBuilder\<close> that the methods below read or write, and the
  edits issued so far. \<open>helpersOpt\<close> is \<^verbatim>\<open>options.externalizeHelpers\<close>, \<open>None\<close> when
  it is falsy: \<^verbatim>\<open>this.externalizeHelpers\<close> is its truthiness and \<^verbatim>\<open>this.helpers\<close>
  the object itself (lines 16 and 17).
\<close>

record builder =
  expressions :: "(path \<times> closure) list"
  localBindings :: "string list"
  importedBindings :: "string list"
  packageVersion :: string
  envFlags :: "string \<rightharpoonup> int"
  helpersOpt :: "helpers option"
  edits :: "edit list"

text \<open>The constructor, lines 6 to 18; no edit has been issued yet.\<close>

definition MacroBuilder :: "string \<Rightarrow> (string \<rightharpoonup> int) \<Rightarrow> helpers option \<Rightarrow> builder" where
  "MacroBuilder version flags externalize =
     \<lparr>expressions = [], localBindings = [], importedBindings = [],
      packageVersion = version, envFlags = flags, helpersOpt = externalize, edits = []\<rparr>"

text \<open>
  A method either completes or throws; both leave a state behind, the one at the
  moment of the throw in the second case.
\<close>

datatype outcome = Done builder | Threw error builder

definition and_then :: "outcome \<Rightarrow> (builder \<Rightarrow> outcome) \<Rightarrow> outcome" where
  "and_then r f = (case r of Done s \<Rightarrow> f s | Threw e s \<Rightarrow> Threw e s)"

text \<open>The constant of line 3.\<close>

definition DEBUG :: string where
  "DEBUG = ''DEBUG''"

section \<open>The logical-guard compiler\<close>

text \<open>
  The loop of the closure, lines 250 to 258: \<open>acc\<close> is \<^verbatim>\<open>logicalExpressions\<close>
  (\<open>None\<close> while undefined) and \<open>right\<close> is undefined past the end of the array.
  Line 254 with an undefined \<open>right\<close> would pass it to the node builder, which
  rejects it; \<open>invoke_chain\<close> below shows that a call of the closure never gets there.
\<close>

function logical_loop :: "node list \<Rightarrow> nat \<Rightarrow> node option \<Rightarrow> error + node option" where
  "logical_loop ids i acc =
     (if i < length ids then
        (let left = ids ! i;
             right = (if i + 1 < length ids then Some (ids ! (i + 1)) else None)
         in case acc of
              None \<Rightarrow>
                (case right of
                   None \<Rightarrow> Inl TypeError
                 | Some r \<Rightarrow> logical_loop ids (i + 1) (Some (LogicalExpression ''&&'' left r)))
            | Some e \<Rightarrow>
                (case right of
                   Some r \<Rightarrow> logical_loop ids (i + 1) (Some (LogicalExpression ''&&'' e r))
                 | None \<Rightarrow> logical_loop ids (i + 1) (Some e)))
      else Inr acc)"
  by pat_completeness auto
termination
  by (relation "measure (\<lambda>(ids, i, acc). length ids - i)") auto

declare logical_loop.simps [simp del]

text \<open>\<^verbatim>\<open>_buildLogicalExpressions\<close>, lines 242 to 262: the closure it returns.\<close>

definition buildLogicalExpressions :: "node list \<Rightarrow> node \<Rightarrow> closure" where
  "buildLogicalExpressions ids call = \<lparr>identifiers = ids, callExpression = call\<rparr>"

text \<open>
  A call of the closure with a binding name, lines 245 to 261: the value returned,
  and the closure with its array after \<^verbatim>\<open>unshift\<close> and \<^verbatim>\<open>push\<close>.
\<close>

definition invoke :: "closure \<Rightarrow> string \<Rightarrow> (error + node option) \<times> closure" where
  "invoke c b =
     (let ids = Identifier b # identifiers c @ [callExpression c]
      in (logical_loop ids 0 None, c\<lparr>identifiers := ids\<rparr>))"

text \<open>A closure after \<open>k\<close> calls with the same binding name.\<close>

fun called :: "nat \<Rightarrow> string \<Rightarrow> closure \<Rightarrow> closure" where
  "called 0 g c = c"
| "called (Suc k) g c = snd (invoke (called k g c) g)"

section \<open>Helper targets\<close>

text \<open>Lines 227 to 240, and \<^verbatim>\<open>_getIdentifiers\<close> of lines 219 to 221.\<close>

definition createGlobalExternalHelper :: "string \<Rightarrow> node list \<Rightarrow> string \<Rightarrow> node" where
  "createGlobalExternalHelper type args ns =
     CallExpression (MemberExpression (Identifier ns) (Identifier type)) args"

definition createExternalHelper :: "string \<Rightarrow> node list \<Rightarrow> node" where
  "createExternalHelper type args = CallExpression (Identifier type) args"

definition createConsoleAPI :: "string \<Rightarrow> node list \<Rightarrow> node" where
  "createConsoleAPI type args =
     CallExpression (MemberExpression (Identifier ''console'') (Identifier type)) args"

definition getIdentifiers :: "node list \<Rightarrow> node list" where
  "getIdentifiers args = filter isIdentifier args"

text \<open>
  \<^verbatim>\<open>path.node.expression.arguments\<close>: the arguments of a statement that is a call,
  which is what the dispatcher of line 98 passes on; the builders fail on any other
  node before they change anything.
\<close>

fun arguments_of :: "node \<Rightarrow> node list option" where
  "arguments_of (ExpressionStatement (CallExpression callee args)) = Some args"
| "arguments_of _ = None"

text \<open>
  An optional string of the configuration when it is truthy, that is present and
  not empty: the tests of lines 142, 186, 206 and 123.
\<close>

fun truthy_str :: "string option \<Rightarrow> string option" where
  "truthy_str None = None"
| "truthy_str (Some s) = (if s = [] then None else Some s)"

section \<open>Expansion builders\<close>

text \<open>\<^verbatim>\<open>_warn\<close>, lines 135 to 153.\<close>

definition warn :: "path \<Rightarrow> builder \<Rightarrow> outcome" where
  "warn expression s =
     (case arguments_of (node expression) of
        None \<Rightarrow> Threw TypeError s
      | Some args \<Rightarrow>
          (let warn =
                 (case helpersOpt s of
                    Some hs \<Rightarrow>
                      (case truthy_str (global hs) of
                         Some ns \<Rightarrow> createGlobalExternalHelper ''warn'' args ns
                       | None \<Rightarrow> createExternalHelper ''warn'' args)
                  | None \<Rightarrow> createConsoleAPI ''warn'' args)
           in Done (s\<lparr>expressions :=
                        expressions s @ [(expression, buildLogicalExpressions [] warn)]\<rparr>)))"

text \<open>\<^verbatim>\<open>_assert\<close>, lines 199 to 217.\<close>

definition assert :: "path \<Rightarrow> builder \<Rightarrow> outcome" where
  "assert p s =
     (case arguments_of (node p) of
        None \<Rightarrow> Threw TypeError s
      | Some args \<Rightarrow>
          (let assert =
                 (case helpersOpt s of
                    Some hs \<Rightarrow>
                      (case truthy_str (global hs) of
                         Some ns \<Rightarrow> createGlobalExternalHelper ''assert'' args ns
                       | None \<Rightarrow> createExternalHelper ''assert'' args)
                  | None \<Rightarrow> createConsoleAPI ''assert'' args);
               identifiers = getIdentifiers args
           in Done (s\<lparr>expressions :=
                        expressions s @ [(p, buildLogicalExpressions identifiers assert)]\<rparr>)))"

text \<open>
  The object \<^verbatim>\<open>meta\<close> of \<^verbatim>\<open>_deprecate\<close>, lines 159 to 163: a property that was never
  written reads as \<^verbatim>\<open>undefined\<close>. \<open>read_meta\<close> is the \<^verbatim>\<open>forEach\<close> of lines 165 to
  168 over the properties of the metadata literal; a later property overwrites an
  earlier one of the same name. A method has no \<^verbatim>\<open>value\<close> and a spread property no
  \<^verbatim>\<open>key\<close>, so that line 167 fails on either with a TypeError and the loop ends there.
\<close>

definition initial_meta :: "string \<Rightarrow> jsval" where
  "initial_meta = (\<lambda>k. JUndefined)(''url'' := JNull, ''id'' := JNull, ''until'' := JNull)"

fun forEach_property :: "property list \<Rightarrow> (string \<Rightarrow> jsval) \<Rightarrow> error + (string \<Rightarrow> jsval)" where
  "forEach_property [] meta = Inr meta"
| "forEach_property (ObjectProperty key v # props) meta =
     forEach_property props (meta(name_key key := value_of v))"
| "forEach_property (ObjectMethod key # props) meta = Inl TypeError"
| "forEach_property (SpreadProperty argument # props) meta = Inl TypeError"

definition read_meta :: "property list \<Rightarrow> error + (string \<Rightarrow> jsval)" where
  "read_meta properties = forEach_property properties initial_meta"

text \<open>\<^verbatim>\<open>_generateDeprecationMessage\<close>, lines 223 to 225.\<close>

definition generateDeprecationMessage :: "host \<Rightarrow> node \<Rightarrow> (string \<Rightarrow> jsval) \<Rightarrow> node" where
  "generateDeprecationMessage h message meta =
     StringLiteral
       (''DEPRECATED ['' @ toString h (meta ''id'') @ '']: '' @ toString h (value_of message)
        @ ''. Will be removed in '' @ toString h (meta ''until'') @ ''.''
        @ (if truthy (meta ''url'')
           then '' See '' @ toString h (meta ''url'') @ '' for more information.''
           else []))"

text \<open>
  \<^verbatim>\<open>_deprecate\<close>, lines 155 to 197. With fewer than three arguments, or a third one
  that is not an object literal, line 165 fails on \<^verbatim>\<open>metaExpression.properties\<close>.
\<close>

definition deprecate :: "host \<Rightarrow> path \<Rightarrow> builder \<Rightarrow> outcome" where
  \<open>deprecate h expression s =
     (case arguments_of (node expression) of
        None \<Rightarrow> Threw TypeError s
      | Some args \<Rightarrow>
          (case args of
             message # predicate # ObjectExpression properties # rest \<Rightarrow>
               (case read_meta properties of
                  Inl err \<Rightarrow> Threw err s
                | Inr meta \<Rightarrow>
                  if \<not> truthy (meta ''id'') then
                    Threw (ReferenceError
                      ''deprecate's meta information requires an "id" field.'') s
                  else if \<not> truthy (meta ''until'') then
                    Threw (ReferenceError
                      ''deprecate's meta information requires an "until" field.'') s
                  else if satisfies h (packageVersion s) (toString h (meta ''until'')) then
                    Done (s\<lparr>edits := edits s @ [Remove (ref expression)]\<rparr>)
                  else
                    (let deprecationMessage = generateDeprecationMessage h message meta;
                         deprecate =
                           (case helpersOpt s of
                              Some hs \<Rightarrow>
                                (case truthy_str (global hs) of
                                   Some ns \<Rightarrow>
                                     createGlobalExternalHelper ''deprecate''
                                       [deprecationMessage] ns
                                 | None \<Rightarrow>
                                     createExternalHelper ''deprecate'' [deprecationMessage])
                            | None \<Rightarrow> createConsoleAPI ''warn'' [deprecationMessage])
                     in Done (s\<lparr>expressions :=
                                  expressions s
                                  @ [(expression, buildLogicalExpressions [predicate] deprecate)]\<rparr>)))
           | _ \<Rightarrow> Threw TypeError s))\<close>

section \<open>Finalization\<close>

text \<open>
  The loop of \<^verbatim>\<open>_expand\<close>, lines 110 to 115, over the registered pairs: each closure
  is called once with the binding name and its site replaced by the result in
  parentheses; the closures keep their changed arrays. The result is the error
  thrown if any, the pairs, and the edits.
\<close>

fun expand_loop ::
  "string \<Rightarrow> (path \<times> closure) list \<Rightarrow> edit list
     \<Rightarrow> error option \<times> (path \<times> closure) list \<times> edit list" where
  "expand_loop b [] es = (None, [], es)"
| "expand_loop b ((exp, logicalExp) # rest) es =
     (case invoke logicalExp b of
        (Inr (Some e), c) \<Rightarrow>
          (case expand_loop b rest (es @ [ReplaceWith (ref exp) (ParenthesizedExpression e)]) of
             (r, rest', es') \<Rightarrow> (r, (exp, c) # rest', es'))
      | (Inr None, c) \<Rightarrow> (Some TypeError, (exp, c) # rest, es)
      | (Inl err, c) \<Rightarrow> (Some err, (exp, c) # rest, es))"

definition expand :: "string \<Rightarrow> builder \<Rightarrow> outcome" where
  "expand b s =
     (case expand_loop b (expressions s) (edits s) of
        (None, xs, es) \<Rightarrow> Done (s\<lparr>expressions := xs, edits := es\<rparr>)
      | (Some err, xs, es) \<Rightarrow> Threw err (s\<lparr>expressions := xs, edits := es\<rparr>))"

section \<open>Flag tables\<close>

text \<open>
  A flag table is a plain object whose own properties are the flags, each an
  integer. The read \<^verbatim>\<open>flagTable[name]\<close> of line 72 gives the flag when the name is
  an own property; otherwise it goes to the prototype, and for the names every plain
  object inherits from \<^verbatim>\<open>Object.prototype\<close> it gives a function or an object, not
  \<^verbatim>\<open>undefined\<close>.
\<close>

definition objectPrototype :: "string list" where
  "objectPrototype =
     [''constructor'', ''hasOwnProperty'', ''isPrototypeOf'', ''propertyIsEnumerable'',
      ''toLocaleString'', ''toString'', ''valueOf'', ''__proto__'', ''__defineGetter__'',
      ''__defineSetter__'', ''__lookupGetter__'', ''__lookupSetter__'']"

datatype flag_read = Number int | Inherited | Undefined

definition read_flag :: "(string \<rightharpoonup> int) \<Rightarrow> string \<Rightarrow> flag_read" where
  "read_flag flagTable name =
     (case flagTable name of
        Some flag \<Rightarrow> Number flag
      | None \<Rightarrow> if name \<in> set objectPrototype then Inherited else Undefined)"

text \<open>
  \<^verbatim>\<open>generateFlagConstants\<close>, lines 69 to 79: \<^verbatim>\<open>specifiers.map\<close> with a callback that
  may throw gives the declarations in order, or what the first failing specifier
  throws: the error of line 77 when the read gives \<^verbatim>\<open>undefined\<close>, and the TypeError
  of the number builder of line 74 when it gives an inherited property, which passes
  the test of line 73 and is not a number.
\<close>

fun generateFlagConstants ::
  "specifier list \<Rightarrow> (string \<rightharpoonup> int) \<Rightarrow> string \<Rightarrow> error + node list" where
  "generateFlagConstants [] flagTable source = Inr []"
| "generateFlagConstants (sp # sps) flagTable source =
     (case read_flag flagTable (imported sp) of
        Number flag \<Rightarrow>
          (case generateFlagConstants sps flagTable source of
             Inl err \<Rightarrow> Inl err
           | Inr ds \<Rightarrow>
               Inr (VariableDeclaration ''const''
                      [VariableDeclarator (Identifier (imported sp)) (NumericLiteral flag)] # ds))
      | Inherited \<Rightarrow> Inl TypeError
      | Undefined \<Rightarrow>
          Inl (Error (''Imported '' @ imported sp @ '' from '' @ source
                      @ '' which is not a supported flag.'')))"

text \<open>\<^verbatim>\<open>inlineEnvFlags\<close>, lines 53 to 56.\<close>

definition inlineEnvFlags :: "path \<Rightarrow> builder \<Rightarrow> outcome" where
  "inlineEnvFlags p s =
     (case node p of
        ImportDeclaration specifiers source \<Rightarrow>
          (case generateFlagConstants specifiers (envFlags s) source of
             Inl err \<Rightarrow> Threw err s
           | Inr flagDeclarations \<Rightarrow>
               Done (s\<lparr>edits := edits s @ [ReplaceWithMultiple (ref p) flagDeclarations]\<rparr>))
      | _ \<Rightarrow> Threw TypeError s)"

section \<open>The guard binding\<close>

text \<open>
  \<^verbatim>\<open>_hasDebugModule\<close>, lines 104 to 108. The read of \<^verbatim>\<open>parent.source.value\<close> fails
  when the parent of a module binding has no source, which the host never produces.
\<close>

definition hasDebugModule :: "binding option \<Rightarrow> error + bool" where
  "hasDebugModule debugBinding =
     (case debugBinding of
        None \<Rightarrow> Inr False
      | Some b \<Rightarrow>
          if kind b = ''module'' then
            (case node (parentPath b) of
               ImportDeclaration specifiers source \<Rightarrow> Inr (source = ''@ember/env-flags'')
             | _ \<Rightarrow> Inl TypeError)
          else Inr False)"

text \<open>
  \<^verbatim>\<open>_injectDebug\<close>, lines 48 to 51. The number builder rejects \<^verbatim>\<open>undefined\<close>, which
  the read of \<^verbatim>\<open>this.envFlags.DEBUG\<close> gives for a table without \<open>DEBUG\<close>.
\<close>

definition injectDebug :: "path \<Rightarrow> node \<Rightarrow> builder \<Rightarrow> outcome" where
  "injectDebug p name s =
     (case read_flag (envFlags s) DEBUG of
        Number d \<Rightarrow>
          Done (s\<lparr>edits := edits s
                   @ [Unshift (ref p)
                        (VariableDeclaration ''const''
                           [VariableDeclarator name (NumericLiteral d)])]\<rparr>)
      | _ \<Rightarrow> Threw TypeError s)"

text \<open>\<^verbatim>\<open>_cleanImports\<close>, lines 117 to 133, with \<open>sc\<close> for \<^verbatim>\<open>path.scope\<close>.\<close>

definition cleanImports :: "scope \<Rightarrow> builder \<Rightarrow> outcome" where
  "cleanImports sc s =
     (if length (localBindings s) > 0 then
        (case getBinding sc (localBindings s ! 0) of
           None \<Rightarrow> Threw TypeError s
         | Some b \<Rightarrow>
             (let importDeclaration = parentPath b;
                  remove = Done (s\<lparr>edits := edits s @ [Remove (ref importDeclaration)]\<rparr>)
              in case helpersOpt s of
                   Some hs \<Rightarrow>
                     (case truthy_str (module hs) of
                        Some m \<Rightarrow>
                          (case node importDeclaration of
                             ImportDeclaration specifiers source \<Rightarrow>
                               Done (s\<lparr>edits := edits s
                                        @ [SetSourceValue (ref importDeclaration) m]\<rparr>)
                           | _ \<Rightarrow> Threw TypeError s)
                      | None \<Rightarrow> remove)
                 | None \<Rightarrow> remove))
      else Done s)"

text \<open>\<^verbatim>\<open>injectFlags\<close>, lines 24 to 46, with \<open>sc\<close> for \<^verbatim>\<open>path.scope\<close>.\<close>

definition injectFlags :: "scope \<Rightarrow> path \<Rightarrow> builder \<Rightarrow> outcome" where
  "injectFlags sc p s =
     (let debugBinding = getBinding sc DEBUG in
      case hasDebugModule debugBinding of
        Inl err \<Rightarrow> Threw err s
      | Inr False \<Rightarrow>
          (let name = generateUidIdentifier sc DEBUG in
           and_then
             (and_then
                (if length (expressions s) > 0 then injectDebug p (Identifier name) s
                 else Done s)
                (expand name))
             (cleanImports sc))
      | Inr True \<Rightarrow>
          (case debugBinding of
             None \<Rightarrow> Threw TypeError s
           | Some b \<Rightarrow>
               and_then (and_then (expand DEBUG s) (inlineEnvFlags (parentPath b)))
                 (cleanImports sc)))"

section \<open>What the specification says the builder produces\<close>

text \<open>
  Specification, section 4.5: the short-circuit expression
  \<^verbatim>\<open>guard && cond_1 && ... && cond_n && terminal\<close>, left-associated, with the guard
  identifier leftmost.
\<close>

definition guard_chain :: "string \<Rightarrow> node list \<Rightarrow> node \<Rightarrow> node" where
  "guard_chain g conds terminal =
     foldl (LogicalExpression ''&&'') (Identifier g) (conds @ [terminal])"

text \<open>The leftmost operand of a chain of logical expressions.\<close>

fun leftmost :: "node \<Rightarrow> node" where
  "leftmost (LogicalExpression operator l r) = leftmost l"
| "leftmost n = n"

text \<open>
  Specification, sections 3 and 4.4: the metadata object is read property by
  property. A plain property has a key and a value, and the names under which the
  plain properties are stored are the fields the metadata has.
\<close>

fun is_plain :: "property \<Rightarrow> bool" where
  "is_plain (ObjectProperty key v) = True"
| "is_plain _ = False"

fun property_names :: "property list \<Rightarrow> string list" where
  "property_names [] = []"
| "property_names (ObjectProperty key v # props) = name_key key # property_names props"
| "property_names (_ # props) = property_names props"

text \<open>
  Specification, section 4.7: the callee of the terminal call. A call on the
  configured global namespace, a bare call of the helper's name when helpers are
  externalized without a namespace, and a call on \<^verbatim>\<open>console\<close> otherwise, where
  \<^verbatim>\<open>deprecate\<close> maps to \<^verbatim>\<open>warn\<close>.
\<close>

definition helper_target :: "helpers option \<Rightarrow> string \<Rightarrow> node" where
  "helper_target cfg helper =
     (case cfg of
        None \<Rightarrow>
          MemberExpression (Identifier ''console'')
            (Identifier (if helper = ''deprecate'' then ''warn'' else helper))
      | Some hs \<Rightarrow>
          (case global hs of
             None \<Rightarrow> Identifier helper
           | Some ns \<Rightarrow>
               if ns = [] then Identifier helper
               else MemberExpression (Identifier ns) (Identifier helper)))"

text \<open>
  Specification, section 4.6: finalization replaces a registered call site by its
  guarded expression in parentheses.
\<close>

definition replacement :: "string \<Rightarrow> path \<times> closure \<Rightarrow> edit" where
  "replacement g pc =
     ReplaceWith (ref (fst pc))
       (ParenthesizedExpression
          (guard_chain g (identifiers (snd pc)) (callExpression (snd pc))))"

section \<open>The loop of the closure\<close>

lemma logical_loop_acc:
  "logical_loop ids i (Some e) =
     Inr (Some (foldl (LogicalExpression ''&&'') e (drop (Suc i) ids)))"
proof (induction "length ids - i" arbitrary: i e)
  case 0
  then show ?case by (simp add: logical_loop.simps)
next
  case (Suc n)
  then have i: "i < length ids" by simp
  have n: "n = length ids - Suc i" using Suc.hyps(2) by simp
  show ?case
  proof (cases "Suc i < length ids")
    case True
    from Suc.hyps(1) [OF n]
    have "logical_loop ids (Suc i) (Some (LogicalExpression ''&&'' e (ids ! Suc i))) =
            Inr (Some (foldl (LogicalExpression ''&&'') (LogicalExpression ''&&'' e (ids ! Suc i))
                         (drop (Suc (Suc i)) ids)))" .
    moreover have "drop (Suc i) ids = ids ! Suc i # drop (Suc (Suc i)) ids"
      using True by (simp add: Cons_nth_drop_Suc)
    ultimately show ?thesis
      using True i by (subst logical_loop.simps) simp
  next
    case False
    from Suc.hyps(1) [OF n]
    have "logical_loop ids (Suc i) (Some e) =
            Inr (Some (foldl (LogicalExpression ''&&'') e (drop (Suc (Suc i)) ids)))" .
    then show ?thesis
      using False i by (subst logical_loop.simps) simp
  qed
qed

lemma logical_loop_start:
  "logical_loop (a # b # rest) 0 None =
     Inr (Some (foldl (LogicalExpression ''&&'') a (b # rest)))"
  by (subst logical_loop.simps) (simp add: logical_loop_acc)

lemma invoke_chain:
  "invoke c g =
     (Inr (Some (guard_chain g (identifiers c) (callExpression c))),
      c\<lparr>identifiers := Identifier g # identifiers c @ [callExpression c]\<rparr>)"
proof -
  obtain b rest where "identifiers c @ [callExpression c] = b # rest"
    by (cases "identifiers c @ [callExpression c]") auto
  then show ?thesis
    by (simp add: invoke_def guard_chain_def logical_loop_start)
qed

lemma leftmost_foldl:
  "leftmost (foldl (LogicalExpression operator) a xs) = leftmost a"
  by (induction xs arbitrary: a) simp_all

section \<open>Finalization completes and replaces every registered site\<close>

lemma expand_loop_total:
  "expand_loop g xs es =
     (None, map (\<lambda>pc. (fst pc, snd (invoke (snd pc) g))) xs, es @ map (replacement g) xs)"
  by (induction xs arbitrary: es) (auto simp: invoke_chain replacement_def)

lemma expand_total:
  "expand g s =
     Done (s\<lparr>expressions := map (\<lambda>pc. (fst pc, snd (invoke (snd pc) g))) (expressions s),
              edits := edits s @ map (replacement g) (expressions s)\<rparr>)"
  by (simp add: expand_def expand_loop_total)

text \<open>
  C1. For conditions \<open>cs\<close> and a terminal call \<open>T\<close>, the closure of the logical-guard
  compiler applied to the guard name \<open>g\<close> returns the left-associated chain
  \<open>g && c1 && ... && cn && T\<close> with the guard identifier leftmost; for no conditions
  it is \<open>g && T\<close>; and finalization replaces the site of every registered closure by
  that chain wrapped in a parenthesized expression, in registration order.
\<close>

theorem logical_guard_compiler:
  "fst (invoke (buildLogicalExpressions cs T) g)
     = Inr (Some (foldl (LogicalExpression ''&&'') (Identifier g) (cs @ [T])))
   \<and> leftmost (foldl (LogicalExpression ''&&'') (Identifier g) (cs @ [T])) = Identifier g
   \<and> fst (invoke (buildLogicalExpressions [] T) g)
     = Inr (Some (LogicalExpression ''&&'' (Identifier g) T))
   \<and> (\<exists>s'. expand g (s\<lparr>expressions :=
                          map (\<lambda>(site, conds, terminal).
                                 (site, buildLogicalExpressions conds terminal)) regs\<rparr>)
              = Done s'
          \<and> edits s' = edits s
               @ map (\<lambda>(site, conds, terminal).
                        ReplaceWith (ref site)
                          (ParenthesizedExpression
                             (foldl (LogicalExpression ''&&'') (Identifier g)
                                (conds @ [terminal]))))
                   regs)"
  by (simp add: invoke_chain expand_total buildLogicalExpressions_def guard_chain_def
      replacement_def split_def leftmost_foldl del: foldl_append)

section \<open>The assert and warn builders\<close>

lemmas helper_defs =
  helper_target_def createGlobalExternalHelper_def createExternalHelper_def createConsoleAPI_def

lemma assert_registers:
  assumes "node p = ExpressionStatement (CallExpression callee args)"
  shows "assert p s =
     Done (s\<lparr>expressions := expressions s
               @ [(p, buildLogicalExpressions (filter isIdentifier args)
                        (CallExpression (helper_target (helpersOpt s) ''assert'') args))]\<rparr>)"
  using assms
  by (auto simp: assert_def getIdentifiers_def helper_defs split: option.splits)

lemma warn_registers:
  assumes "node p = ExpressionStatement (CallExpression callee args)"
  shows "warn p s =
     Done (s\<lparr>expressions := expressions s
               @ [(p, buildLogicalExpressions []
                        (CallExpression (helper_target (helpersOpt s) ''warn'') args))]\<rparr>)"
  using assms
  by (auto simp: warn_def helper_defs split: option.splits)

text \<open>
  C7. For every assert call, the terminal call forwards all the original arguments
  unchanged to the helper target, the arguments that are identifiers are the leading
  conditions, in argument order, and finalization with guard name \<open>g\<close> replaces the
  site by the parenthesized chain; \<open>assert(x, "message")\<close> with guard \<open>_DEBUG\<close> becomes
  \<open>(_DEBUG && x && console.assert(x, "message"))\<close>.
\<close>

theorem assert_guarded:
  assumes "node p = ExpressionStatement (CallExpression callee args)"
  shows "assert p s =
           Done (s\<lparr>expressions := expressions s
                     @ [(p, buildLogicalExpressions (filter isIdentifier args)
                              (CallExpression (helper_target (helpersOpt s) ''assert'') args))]\<rparr>)
         \<and> (\<exists>s'. and_then (assert p s) (expand g) = Done s'
                \<and> edits s' = edits s @ map (replacement g) (expressions s)
                     @ [ReplaceWith (ref p)
                          (ParenthesizedExpression
                             (foldl (LogicalExpression ''&&'') (Identifier g)
                                (filter isIdentifier args
                                 @ [CallExpression (helper_target (helpersOpt s) ''assert'')
                                      args])))])"
  by (simp add: assert_registers [OF assms] and_then_def expand_total replacement_def
      guard_chain_def buildLogicalExpressions_def)

theorem assert_guarded_witness:
  "node \<lparr>ref = 0, node = ExpressionStatement
            (CallExpression (Identifier ''assert'') [Identifier ''x'', StringLiteral ''message''])\<rparr>
     = ExpressionStatement
         (CallExpression (Identifier ''assert'') [Identifier ''x'', StringLiteral ''message''])
   \<and> (\<exists>s'. and_then
              (assert \<lparr>ref = 0, node = ExpressionStatement
                  (CallExpression (Identifier ''assert'')
                     [Identifier ''x'', StringLiteral ''message''])\<rparr>
                 (MacroBuilder ''1.0.0'' [''DEBUG'' \<mapsto> 1] None))
              (expand ''_DEBUG'') = Done s'
          \<and> edits s' =
              [ReplaceWith 0
                 (ParenthesizedExpression
                    (LogicalExpression ''&&''
                       (LogicalExpression ''&&'' (Identifier ''_DEBUG'') (Identifier ''x''))
                       (CallExpression
                          (MemberExpression (Identifier ''console'') (Identifier ''assert''))
                          [Identifier ''x'', StringLiteral ''message''])))])"
  using assert_guarded [of "\<lparr>ref = 0, node = ExpressionStatement
            (CallExpression (Identifier ''assert'') [Identifier ''x'', StringLiteral ''message''])\<rparr>"
          "Identifier ''assert''" "[Identifier ''x'', StringLiteral ''message'']"
          "MacroBuilder ''1.0.0'' [''DEBUG'' \<mapsto> 1] None" "''_DEBUG''"]
  by (auto simp: MacroBuilder_def helper_target_def)

text \<open>
  C8. For every warn call, the terminal call forwards all the original arguments
  unchanged and no leading condition is added, so that the site becomes
  \<open>(g && target.warn(args))\<close>; with helpers externalized to the global \<open>Ember\<close>,
  \<open>warn("message")\<close> becomes \<open>(_DEBUG && Ember.warn("message"))\<close>.
\<close>

theorem warn_guarded:
  assumes "node p = ExpressionStatement (CallExpression callee args)"
  shows "warn p s =
           Done (s\<lparr>expressions := expressions s
                     @ [(p, buildLogicalExpressions []
                              (CallExpression (helper_target (helpersOpt s) ''warn'') args))]\<rparr>)
         \<and> (\<exists>s'. and_then (warn p s) (expand g) = Done s'
                \<and> edits s' = edits s @ map (replacement g) (expressions s)
                     @ [ReplaceWith (ref p)
                          (ParenthesizedExpression
                             (LogicalExpression ''&&'' (Identifier g)
                                (CallExpression (helper_target (helpersOpt s) ''warn'') args)))])"
  by (simp add: warn_registers [OF assms] and_then_def expand_total replacement_def
      guard_chain_def buildLogicalExpressions_def)

theorem warn_guarded_witness:
  "node \<lparr>ref = 0, node = ExpressionStatement
            (CallExpression (Identifier ''warn'') [StringLiteral ''message''])\<rparr>
     = ExpressionStatement (CallExpression (Identifier ''warn'') [StringLiteral ''message''])
   \<and> (\<exists>s'. and_then
              (warn \<lparr>ref = 0, node = ExpressionStatement
                  (CallExpression (Identifier ''warn'') [StringLiteral ''message''])\<rparr>
                 (MacroBuilder ''1.0.0'' [''DEBUG'' \<mapsto> 1]
                    (Some \<lparr>global = Some ''Ember'', module = None\<rparr>)))
              (expand ''_DEBUG'') = Done s'
          \<and> edits s' =
              [ReplaceWith 0
                 (ParenthesizedExpression
                    (LogicalExpression ''&&'' (Identifier ''_DEBUG'')
                       (CallExpression
                          (MemberExpression (Identifier ''Ember'') (Identifier ''warn''))
                          [StringLiteral ''message''])))])"
  using warn_guarded [of "\<lparr>ref = 0, node = ExpressionStatement
            (CallExpression (Identifier ''warn'') [StringLiteral ''message''])\<rparr>"
          "Identifier ''warn''" "[StringLiteral ''message'']"
          "MacroBuilder ''1.0.0'' [''DEBUG'' \<mapsto> 1]
             (Some \<lparr>global = Some ''Ember'', module = None\<rparr>)" "''_DEBUG''"]
  by (auto simp: MacroBuilder_def helper_target_def)

section \<open>Flag inlining\<close>

lemma generateFlagConstants_present:
  assumes "\<forall>sp \<in> set specs. flagTable (imported sp) \<noteq> None"
  shows "generateFlagConstants specs flagTable source =
     Inr (map (\<lambda>sp. VariableDeclaration ''const''
                       [VariableDeclarator (Identifier (imported sp))
                          (NumericLiteral (the (flagTable (imported sp))))]) specs)"
  using assms by (induction specs) (auto simp: read_flag_def)






text \<open>
  C2. The specification has flag inlining declare one constant per specifier, in
  order, binding the specifier's local name to the table's value for its imported
  name. The declarations are one per specifier and in order
  (\<open>generateFlagConstants_present\<close>), but each binds the imported name: for
  \<^verbatim>\<open>import { DEBUG, TESTING as T } from '@ember/env-flags'\<close> the code declares
  \<open>DEBUG\<close> and \<open>TESTING\<close>, and \<open>T\<close> is left without a declaration.
\<close>

theorem flag_constant_binds_imported_name:
  "generateFlagConstants
     [\<lparr>imported = ''DEBUG'', local = ''DEBUG''\<rparr>, \<lparr>imported = ''TESTING'', local = ''T''\<rparr>]
     [''DEBUG'' \<mapsto> 1, ''TESTING'' \<mapsto> 0] ''@ember/env-flags''
   = Inr [VariableDeclaration ''const''
            [VariableDeclarator (Identifier ''DEBUG'') (NumericLiteral 1)],
          VariableDeclaration ''const''
            [VariableDeclarator (Identifier ''TESTING'') (NumericLiteral 0)]]"
  by (simp add: read_flag_def)




section \<open>The deprecate builder\<close>

lemma forEach_property_plain:
  assumes "\<forall>pr \<in> set props. is_plain pr"
  shows "\<exists>meta. forEach_property props m = Inr meta"
  using assms
proof (induction props arbitrary: m)
  case Nil
  show ?case by simp
next
  case (Cons pr props)
  then show ?case by (cases pr) simp_all
qed

lemma forEach_property_not_plain:
  assumes "\<exists>pr \<in> set props. \<not> is_plain pr"
  shows "forEach_property props m = Inl TypeError"
  using assms
proof (induction props arbitrary: m)
  case Nil
  then show ?case by simp
next
  case (Cons pr props)
  then show ?case by (cases pr) simp_all
qed

lemma forEach_property_absent:
  assumes "forEach_property props m = Inr meta" and "k \<notin> set (property_names props)"
  shows "meta k = m k"
  using assms
proof (induction props arbitrary: m)
  case Nil
  then show ?case by simp
next
  case (Cons pr props)
  then show ?case by (cases pr) auto
qed

lemma read_meta_absent:
  assumes "read_meta props = Inr meta" and "k \<notin> set (property_names props)"
  shows "meta k = initial_meta k"
  using assms forEach_property_absent by (simp add: read_meta_def)

lemma deprecate_registers:
  assumes "node p = ExpressionStatement
             (CallExpression callee (message # predicate # ObjectExpression props # rest))"
    and "read_meta props = Inr meta"
    and "truthy (meta ''id'')" and "truthy (meta ''until'')"
    and "\<not> satisfies h (packageVersion s) (toString h (meta ''until''))"
  shows "deprecate h p s =
     Done (s\<lparr>expressions := expressions s
               @ [(p, buildLogicalExpressions [predicate]
                        (CallExpression (helper_target (helpersOpt s) ''deprecate'')
                           [generateDeprecationMessage h message meta]))]\<rparr>)"
  using assms
  by (auto simp: deprecate_def Let_def helper_defs split: option.splits)

text \<open>
  C4. A deprecate call whose metadata gives an \<open>id\<close> and an \<open>until\<close> and whose
  \<open>until\<close> range is satisfied by the package version is removed at once: the only
  effect is the removal of the call site, and nothing is registered for it.
\<close>

theorem expired_deprecation_removed:
  assumes "node p = ExpressionStatement
             (CallExpression callee (message # predicate # ObjectExpression props # rest))"
    and "read_meta props = Inr meta"
    and "truthy (meta ''id'')" and "truthy (meta ''until'')"
    and "satisfies h (packageVersion s) (toString h (meta ''until''))"
  shows "deprecate h p s = Done (s\<lparr>edits := edits s @ [Remove (ref p)]\<rparr>)
         \<and> expressions (s\<lparr>edits := edits s @ [Remove (ref p)]\<rparr>) = expressions s"
  using assms by (simp add: deprecate_def Let_def)

theorem expired_deprecation_removed_witness:
  "deprecate \<lparr>satisfies = (\<lambda>v r. v = ''3.0.0'' \<and> r = ''3.0.0''), numberToString = (\<lambda>n. [])\<rparr>
     \<lparr>ref = 5, node = ExpressionStatement
        (CallExpression (Identifier ''deprecate'')
           [StringLiteral ''Foo is bad'', Identifier ''cond'',
            ObjectExpression [ObjectProperty (Identifier ''id'') (StringLiteral ''foo-dep''),
                              ObjectProperty (Identifier ''until'') (StringLiteral ''3.0.0'')]])\<rparr>
     (MacroBuilder ''3.0.0'' [''DEBUG'' \<mapsto> 1] None)
   = Done ((MacroBuilder ''3.0.0'' [''DEBUG'' \<mapsto> 1] None)\<lparr>edits := [Remove 5]\<rparr>)"
proof -
  let ?h = "\<lparr>satisfies = (\<lambda>v r. v = ''3.0.0'' \<and> r = ''3.0.0''), numberToString = (\<lambda>n. [])\<rparr>"
  let ?props = "[ObjectProperty (Identifier ''id'') (StringLiteral ''foo-dep''),
                 ObjectProperty (Identifier ''until'') (StringLiteral ''3.0.0'')]"
  let ?meta = "initial_meta(''id'' := JStr ''foo-dep'', ''until'' := JStr ''3.0.0'')"
  let ?args = "[StringLiteral ''Foo is bad'', Identifier ''cond'', ObjectExpression ?props]"
  let ?p = "\<lparr>ref = 5, node = ExpressionStatement
              (CallExpression (Identifier ''deprecate'') ?args)\<rparr>"
  let ?s = "MacroBuilder ''3.0.0'' [''DEBUG'' \<mapsto> 1] None"
  have h1: "node ?p = ExpressionStatement (CallExpression (Identifier ''deprecate'')
              (StringLiteral ''Foo is bad'' # Identifier ''cond'' # ObjectExpression ?props # []))"
    by simp
  have h2: "read_meta ?props = Inr ?meta"
    by (simp add: read_meta_def)
  have h3: "truthy (?meta ''id'')" and h4: "truthy (?meta ''until'')"
    by simp_all
  have h5: "satisfies ?h (packageVersion ?s) (toString ?h (?meta ''until''))"
    by (simp add: MacroBuilder_def)
  from expired_deprecation_removed [OF h1 h2 h3 h4 h5] show ?thesis
    by (simp add: MacroBuilder_def)
qed

text \<open>
  C5. For a deprecate call that version expiry does not remove, the message literal
  of the registered terminal call is \<open>DEPRECATED [id]: message. Will be removed in until.\<close>
  followed by \<open> See url for more information.\<close> when the metadata gives a url, and
  by nothing when it gives none; each field stands as the string a template literal
  makes of it, and a url is given when its value is truthy. The example of the
  specification, and the same call without url, are the witness.
\<close>

theorem deprecation_message:
  assumes "node p = ExpressionStatement
             (CallExpression callee (message # predicate # ObjectExpression props # rest))"
    and "read_meta props = Inr meta"
    and "truthy (meta ''id'')" and "truthy (meta ''until'')"
    and "\<not> satisfies h (packageVersion s) (toString h (meta ''until''))"
  shows "deprecate h p s =
     Done (s\<lparr>expressions := expressions s
               @ [(p, buildLogicalExpressions [predicate]
                        (CallExpression (helper_target (helpersOpt s) ''deprecate'')
                           [StringLiteral
                              (''DEPRECATED ['' @ toString h (meta ''id'') @ '']: ''
                               @ toString h (value_of message) @ ''. Will be removed in ''
                               @ toString h (meta ''until'') @ ''.''
                               @ (if truthy (meta ''url'')
                                  then '' See '' @ toString h (meta ''url'')
                                       @ '' for more information.''
                                  else []))]))]\<rparr>)"
  using deprecate_registers [OF assms] by (simp add: generateDeprecationMessage_def)

theorem deprecation_message_witness:
  "(\<exists>s'. deprecate \<lparr>satisfies = (\<lambda>v r. False), numberToString = (\<lambda>n. [])\<rparr>
       \<lparr>ref = 5, node = ExpressionStatement
          (CallExpression (Identifier ''deprecate'')
             [StringLiteral ''Foo is bad'', Identifier ''cond'',
              ObjectExpression [ObjectProperty (Identifier ''id'') (StringLiteral ''foo-dep''),
                                ObjectProperty (Identifier ''until'') (StringLiteral ''>=2.0.0''),
                                ObjectProperty (Identifier ''url'') (StringLiteral ''http://x'')]])\<rparr>
       (MacroBuilder ''1.0.0'' [''DEBUG'' \<mapsto> 1] None) = Done s'
      \<and> map (callExpression \<circ> snd) (expressions s') =
          [CallExpression (MemberExpression (Identifier ''console'') (Identifier ''warn''))
             [StringLiteral
                ''DEPRECATED [foo-dep]: Foo is bad. Will be removed in >=2.0.0. See http://x for more information.'']])
   \<and> (\<exists>s'. deprecate \<lparr>satisfies = (\<lambda>v r. False), numberToString = (\<lambda>n. [])\<rparr>
       \<lparr>ref = 5, node = ExpressionStatement
          (CallExpression (Identifier ''deprecate'')
             [StringLiteral ''Foo is bad'', Identifier ''cond'',
              ObjectExpression [ObjectProperty (Identifier ''id'') (StringLiteral ''foo-dep''),
                                ObjectProperty (Identifier ''until'') (StringLiteral ''>=2.0.0'')]])\<rparr>
       (MacroBuilder ''1.0.0'' [''DEBUG'' \<mapsto> 1] None) = Done s'
      \<and> map (callExpression \<circ> snd) (expressions s') =
          [CallExpression (MemberExpression (Identifier ''console'') (Identifier ''warn''))
             [StringLiteral ''DEPRECATED [foo-dep]: Foo is bad. Will be removed in >=2.0.0.'']])"
proof -
  let ?h = "\<lparr>satisfies = (\<lambda>v r. False), numberToString = (\<lambda>n. [])\<rparr>"
  let ?s = "MacroBuilder ''1.0.0'' [''DEBUG'' \<mapsto> 1] None"
  let ?short = "[ObjectProperty (Identifier ''id'') (StringLiteral ''foo-dep''),
                 ObjectProperty (Identifier ''until'') (StringLiteral ''>=2.0.0'')]"
  let ?long = "?short @ [ObjectProperty (Identifier ''url'') (StringLiteral ''http://x'')]"
  let ?m2 = "initial_meta(''id'' := JStr ''foo-dep'', ''until'' := JStr ''>=2.0.0'')"
  let ?m1 = "?m2(''url'' := JStr ''http://x'')"
  let ?p = "\<lambda>props. \<lparr>ref = 5, node = ExpressionStatement
              (CallExpression (Identifier ''deprecate'')
                 [StringLiteral ''Foo is bad'', Identifier ''cond'', ObjectExpression props])\<rparr>"
  have shape: "node (?p props) = ExpressionStatement
      (CallExpression (Identifier ''deprecate'')
         (StringLiteral ''Foo is bad'' # Identifier ''cond'' # ObjectExpression props # []))"
    for props by simp
  have r1: "read_meta ?long = Inr ?m1" and r2: "read_meta ?short = Inr ?m2"
    by (simp_all add: read_meta_def)
  have id1: "truthy (?m1 ''id'')" and until1: "truthy (?m1 ''until'')"
    and n1: "\<not> satisfies ?h (packageVersion ?s) (toString ?h (?m1 ''until''))"
    by simp_all
  have id2: "truthy (?m2 ''id'')" and until2: "truthy (?m2 ''until'')"
    and n2: "\<not> satisfies ?h (packageVersion ?s) (toString ?h (?m2 ''until''))"
    by simp_all
  note a = deprecation_message [OF shape r1 id1 until1 n1]
  note b = deprecation_message [OF shape r2 id2 until2 n2]
  from a b show ?thesis
    by (simp add: MacroBuilder_def helper_target_def buildLogicalExpressions_def
        initial_meta_def)
qed

text \<open>
  C6. The specification has a deprecate call whose metadata lacks \<open>id\<close> or \<open>until\<close>
  throw a ReferenceError that names the missing field. For the metadata
  \<open>{id: someVar}\<close> the missing field is \<open>until\<close>, but an \<open>id\<close> that is not a literal
  reads as \<^verbatim>\<open>undefined\<close>, fails the test of line 170 first, and the error names
  \<open>id\<close>; for the metadata \<open>{...defaults}\<close>, which lacks both, line 167 fails with a
  TypeError.
\<close>

theorem falsy_id_is_named_first:
  \<open>''until'' \<notin> set (property_names [ObjectProperty (Identifier ''id'') (Identifier ''someVar'')])
   \<and> ''id'' \<in> set (property_names [ObjectProperty (Identifier ''id'') (Identifier ''someVar'')])
   \<and> deprecate \<lparr>satisfies = (\<lambda>v r. False), numberToString = (\<lambda>n. [])\<rparr>
        \<lparr>ref = 5, node = ExpressionStatement
           (CallExpression (Identifier ''deprecate'')
              [StringLiteral ''Foo is bad'', Identifier ''cond'',
               ObjectExpression
                 [ObjectProperty (Identifier ''id'') (Identifier ''someVar'')]])\<rparr>
        (MacroBuilder ''1.0.0'' [''DEBUG'' \<mapsto> 1] None)
      = Threw (ReferenceError ''deprecate's meta information requires an "id" field.'')
          (MacroBuilder ''1.0.0'' [''DEBUG'' \<mapsto> 1] None)
   \<and> deprecate \<lparr>satisfies = (\<lambda>v r. False), numberToString = (\<lambda>n. [])\<rparr>
        \<lparr>ref = 5, node = ExpressionStatement
           (CallExpression (Identifier ''deprecate'')
              [StringLiteral ''Foo is bad'', Identifier ''cond'',
               ObjectExpression [SpreadProperty (Identifier ''defaults'')]])\<rparr>
        (MacroBuilder ''1.0.0'' [''DEBUG'' \<mapsto> 1] None)
      = Threw TypeError (MacroBuilder ''1.0.0'' [''DEBUG'' \<mapsto> 1] None)\<close>
  by (simp add: deprecate_def read_meta_def initial_meta_def)

text \<open>
  C6, as amended. For a deprecate call with a metadata object literal, always before
  any edit or registration (the state is the one before the call): a method or a
  spread property in the literal gives a TypeError; otherwise a falsy \<open>id\<close> gives the
  ReferenceError that names \<open>id\<close>, and a truthy \<open>id\<close> with a falsy \<open>until\<close> the one
  that names \<open>until\<close>. A field the literal lacks is falsy, so a metadata object that
  lacks \<open>id\<close> or \<open>until\<close> never passes; the error names \<open>until\<close> only when \<open>id\<close> is
  truthy.
\<close>

theorem deprecate_requires_id_and_until:
  assumes "node p = ExpressionStatement
             (CallExpression callee (message # predicate # ObjectExpression props # rest))"
  shows \<open>((\<exists>pr \<in> set props. \<not> is_plain pr) \<longrightarrow> deprecate h p s = Threw TypeError s)
       \<and> ((\<forall>pr \<in> set props. is_plain pr) \<longrightarrow>
            (\<exists>meta. read_meta props = Inr meta
               \<and> (''id'' \<notin> set (property_names props) \<longrightarrow> \<not> truthy (meta ''id''))
               \<and> (''until'' \<notin> set (property_names props) \<longrightarrow> \<not> truthy (meta ''until''))
               \<and> (\<not> truthy (meta ''id'') \<longrightarrow>
                    deprecate h p s =
                      Threw (ReferenceError
                        ''deprecate's meta information requires an "id" field.'') s)
               \<and> (truthy (meta ''id'') \<and> \<not> truthy (meta ''until'') \<longrightarrow>
                    deprecate h p s =
                      Threw (ReferenceError
                        ''deprecate's meta information requires an "until" field.'') s)))\<close>
proof (intro conjI impI)
  assume "\<exists>pr \<in> set props. \<not> is_plain pr"
  then have "read_meta props = Inl TypeError"
    by (simp add: read_meta_def forEach_property_not_plain)
  with assms show "deprecate h p s = Threw TypeError s"
    by (simp add: deprecate_def)
next
  assume "\<forall>pr \<in> set props. is_plain pr"
  then obtain meta where meta: "read_meta props = Inr meta"
    using forEach_property_plain [of props initial_meta] by (auto simp: read_meta_def)
  have id: "\<not> truthy (meta ''id'')" if "''id'' \<notin> set (property_names props)"
    using read_meta_absent [OF meta that] by (simp add: initial_meta_def)
  have until: "\<not> truthy (meta ''until'')" if "''until'' \<notin> set (property_names props)"
    using read_meta_absent [OF meta that] by (simp add: initial_meta_def)
  have no_id: \<open>deprecate h p s =
      Threw (ReferenceError ''deprecate's meta information requires an "id" field.'') s\<close>
    if "\<not> truthy (meta ''id'')"
    using that assms meta by (simp add: deprecate_def)
  have no_until: \<open>deprecate h p s =
      Threw (ReferenceError ''deprecate's meta information requires an "until" field.'') s\<close>
    if "truthy (meta ''id'') \<and> \<not> truthy (meta ''until'')"
    using that assms meta by (simp add: deprecate_def)
  from meta id until no_id no_until
  show \<open>\<exists>meta. read_meta props = Inr meta
               \<and> (''id'' \<notin> set (property_names props) \<longrightarrow> \<not> truthy (meta ''id''))
               \<and> (''until'' \<notin> set (property_names props) \<longrightarrow> \<not> truthy (meta ''until''))
               \<and> (\<not> truthy (meta ''id'') \<longrightarrow>
                    deprecate h p s =
                      Threw (ReferenceError
                        ''deprecate's meta information requires an "id" field.'') s)
               \<and> (truthy (meta ''id'') \<and> \<not> truthy (meta ''until'') \<longrightarrow>
                    deprecate h p s =
                      Threw (ReferenceError
                        ''deprecate's meta information requires an "until" field.'') s)\<close>
    by blast
qed

theorem deprecate_requires_id_and_until_witness:
  \<open>deprecate \<lparr>satisfies = (\<lambda>v r. False), numberToString = (\<lambda>n. [])\<rparr>
      \<lparr>ref = 5, node = ExpressionStatement
         (CallExpression (Identifier ''deprecate'')
            [StringLiteral ''Foo is bad'', Identifier ''cond'',
             ObjectExpression [ObjectProperty (Identifier ''until'') (StringLiteral ''3.0.0'')]])\<rparr>
      (MacroBuilder ''1.0.0'' [''DEBUG'' \<mapsto> 1] None)
    = Threw (ReferenceError ''deprecate's meta information requires an "id" field.'')
        (MacroBuilder ''1.0.0'' [''DEBUG'' \<mapsto> 1] None)
   \<and> deprecate \<lparr>satisfies = (\<lambda>v r. False), numberToString = (\<lambda>n. [])\<rparr>
      \<lparr>ref = 5, node = ExpressionStatement
         (CallExpression (Identifier ''deprecate'')
            [StringLiteral ''Foo is bad'', Identifier ''cond'',
             ObjectExpression [ObjectProperty (Identifier ''id'') (StringLiteral ''foo-dep'')]])\<rparr>
      (MacroBuilder ''1.0.0'' [''DEBUG'' \<mapsto> 1] None)
    = Threw (ReferenceError ''deprecate's meta information requires an "until" field.'')
        (MacroBuilder ''1.0.0'' [''DEBUG'' \<mapsto> 1] None)
   \<and> deprecate \<lparr>satisfies = (\<lambda>v r. False), numberToString = (\<lambda>n. [])\<rparr>
      \<lparr>ref = 5, node = ExpressionStatement
         (CallExpression (Identifier ''deprecate'')
            [StringLiteral ''Foo is bad'', Identifier ''cond'',
             ObjectExpression [ObjectMethod (Identifier ''id'')]])\<rparr>
      (MacroBuilder ''1.0.0'' [''DEBUG'' \<mapsto> 1] None)
    = Threw TypeError (MacroBuilder ''1.0.0'' [''DEBUG'' \<mapsto> 1] None)\<close>
proof -
  let ?h = "\<lparr>satisfies = (\<lambda>v r. False), numberToString = (\<lambda>n. [])\<rparr>"
  let ?s = "MacroBuilder ''1.0.0'' [''DEBUG'' \<mapsto> 1] None"
  let ?a = "[ObjectProperty (Identifier ''until'') (StringLiteral ''3.0.0'')]"
  let ?b = "[ObjectProperty (Identifier ''id'') (StringLiteral ''foo-dep'')]"
  let ?c = "[ObjectMethod (Identifier ''id'')]"
  let ?p = "\<lambda>props. \<lparr>ref = 5, node = ExpressionStatement
              (CallExpression (Identifier ''deprecate'')
                 [StringLiteral ''Foo is bad'', Identifier ''cond'', ObjectExpression props])\<rparr>"
  have shape: "node (?p props) = ExpressionStatement
      (CallExpression (Identifier ''deprecate'')
         (StringLiteral ''Foo is bad'' # Identifier ''cond'' # ObjectExpression props # []))"
    for props by simp
  note t = deprecate_requires_id_and_until [OF shape, of _ ?h ?s]
  have plain: "\<forall>pr \<in> set ?a. is_plain pr" "\<forall>pr \<in> set ?b. is_plain pr"
    and not_plain: "\<exists>pr \<in> set ?c. \<not> is_plain pr"
    by simp_all
  have ra: "read_meta ?a = Inr (initial_meta(''until'' := JStr ''3.0.0''))"
    and rb: "read_meta ?b = Inr (initial_meta(''id'' := JStr ''foo-dep''))"
    by (simp_all add: read_meta_def)
  have fa: "\<not> truthy ((initial_meta(''until'' := JStr ''3.0.0'')) ''id'')"
    and fb: "truthy ((initial_meta(''id'' := JStr ''foo-dep'')) ''id'')
        \<and> \<not> truthy ((initial_meta(''id'' := JStr ''foo-dep'')) ''until'')"
    by (simp_all add: initial_meta_def)
  from t [of ?a] plain(1) ra fa
  have 1: \<open>deprecate ?h (?p ?a) ?s =
      Threw (ReferenceError ''deprecate's meta information requires an "id" field.'') ?s\<close>
    by auto
  from t [of ?b] plain(2) rb fb
  have 2: \<open>deprecate ?h (?p ?b) ?s =
      Threw (ReferenceError ''deprecate's meta information requires an "until" field.'') ?s\<close>
    by auto
  from t [of ?c] not_plain
  have 3: "deprecate ?h (?p ?c) ?s = Threw TypeError ?s"
    by blast
  from 1 2 3 show ?thesis by simp
qed

section \<open>Calling a closure more than once\<close>

lemma called_identifiers:
  "called k g c =
     c\<lparr>identifiers := replicate k (Identifier g) @ identifiers c @ replicate k (callExpression c)\<rparr>"
proof (induction k)
  case 0
  show ?case by simp
next
  case (Suc k)
  have "replicate k (callExpression c) @ [callExpression c] = replicate (Suc k) (callExpression c)"
    by (simp add: replicate_append_same)
  with Suc show ?case by (simp add: invoke_chain del: replicate.simps) simp
qed

text \<open>
  C9. The specification has the closure give the same expression each time it is
  called with the same guard name. A second call gives another: the first call of the
  closure for \<open>T\<close> gives \<open>g && T\<close>, the second \<open>g && g && T && T\<close>.
\<close>

theorem closure_call_mutates:
  "fst (invoke (snd (invoke (buildLogicalExpressions [] (Identifier ''T'')) ''g'')) ''g'')
     \<noteq> fst (invoke (buildLogicalExpressions [] (Identifier ''T'')) ''g'')"
  by (simp add: invoke_chain guard_chain_def buildLogicalExpressions_def)

text \<open>
  C9, as amended. Each call prepends the guard identifier to the captured list and
  appends the terminal call, so the call number \<open>k + 1\<close> gives the left-associated chain
  over \<open>k + 1\<close> guard identifiers, the conditions, and \<open>k + 1\<close> terminal calls; only
  the first call gives \<open>g && c1 && ... && cn && T\<close>.
\<close>

theorem closure_repeated_calls:
  "fst (invoke (called k g (buildLogicalExpressions cs T)) g)
     = Inr (Some (foldl (LogicalExpression ''&&'') (Identifier g)
                    (replicate k (Identifier g) @ cs @ replicate (Suc k) T)))"
  by (simp add: invoke_chain called_identifiers guard_chain_def buildLogicalExpressions_def
      replicate_append_same del: replicate.simps) simp

section \<open>Reuse and synthesis of the guard binding\<close>

lemma hasDebugModule_True:
  "(hasDebugModule b = Inr True) =
     (\<exists>bd specs. b = Some bd \<and> kind bd = ''module''
        \<and> node (parentPath bd) = ImportDeclaration specs ''@ember/env-flags'')"
  by (cases b; cases "node (parentPath (the b))") (auto simp: hasDebugModule_def)

lemma hasDebugModule_False:
  assumes "b = None
     \<or> (\<exists>bd. b = Some bd
          \<and> (kind bd \<noteq> ''module''
              \<or> (\<exists>specs source. node (parentPath bd) = ImportDeclaration specs source
                    \<and> source \<noteq> ''@ember/env-flags'')))"
  shows "hasDebugModule b = Inr False"
  using assms by (auto simp: hasDebugModule_def)

text \<open>
  C10. The reuse path is taken exactly when the scope has a binding \<open>DEBUG\<close> of kind
  \<open>module\<close> whose import declaration has the source \<open>@ember/env-flags\<close>: the sites are
  finalized with the name \<open>DEBUG\<close> and the import is inlined. With no binding, a
  binding of another kind or an import from another module, the guard name is the
  one the scope generates from \<open>DEBUG\<close>, and a constant of that name, initialized to
  the environment table's \<open>DEBUG\<close> value, is put first in the program only when an
  expansion was registered.
\<close>

theorem guard_binding_injector:
  "((hasDebugModule (getBinding sc ''DEBUG'') = Inr True) =
      (\<exists>bd specs. getBinding sc ''DEBUG'' = Some bd \<and> kind bd = ''module''
         \<and> node (parentPath bd) = ImportDeclaration specs ''@ember/env-flags''))
   \<and> (\<forall>bd specs.
         getBinding sc ''DEBUG'' = Some bd \<and> kind bd = ''module''
         \<and> node (parentPath bd) = ImportDeclaration specs ''@ember/env-flags''
         \<longrightarrow> injectFlags sc p s =
               and_then
                 (inlineEnvFlags (parentPath bd)
                    (s\<lparr>expressions :=
                         map (\<lambda>pc. (fst pc, snd (invoke (snd pc) ''DEBUG''))) (expressions s),
                       edits := edits s @ map (replacement ''DEBUG'') (expressions s)\<rparr>))
                 (cleanImports sc))
   \<and> ((getBinding sc ''DEBUG'' = None
        \<or> (\<exists>bd. getBinding sc ''DEBUG'' = Some bd
             \<and> (kind bd \<noteq> ''module''
                 \<or> (\<exists>specs source. node (parentPath bd) = ImportDeclaration specs source
                       \<and> source \<noteq> ''@ember/env-flags''))))
       \<and> (expressions s \<noteq> [] \<longrightarrow> envFlags s ''DEBUG'' = Some d)
       \<longrightarrow> injectFlags sc p s =
             cleanImports sc
               (s\<lparr>expressions :=
                    map (\<lambda>pc. (fst pc, snd (invoke (snd pc) (generateUidIdentifier sc ''DEBUG''))))
                      (expressions s),
                  edits := edits s
                    @ (if expressions s = [] then []
                       else [Unshift (ref p)
                               (VariableDeclaration ''const''
                                  [VariableDeclarator
                                     (Identifier (generateUidIdentifier sc ''DEBUG''))
                                     (NumericLiteral d)])])
                    @ map (replacement (generateUidIdentifier sc ''DEBUG'')) (expressions s)\<rparr>))"
proof (intro conjI allI impI)
  show "(hasDebugModule (getBinding sc ''DEBUG'') = Inr True) =
      (\<exists>bd specs. getBinding sc ''DEBUG'' = Some bd \<and> kind bd = ''module''
         \<and> node (parentPath bd) = ImportDeclaration specs ''@ember/env-flags'')"
    by (rule hasDebugModule_True)
next
  fix bd specs
  assume reuse: "getBinding sc ''DEBUG'' = Some bd \<and> kind bd = ''module''
         \<and> node (parentPath bd) = ImportDeclaration specs ''@ember/env-flags''"
  then have "hasDebugModule (getBinding sc ''DEBUG'') = Inr True"
    unfolding hasDebugModule_True by blast
  with reuse show "injectFlags sc p s =
               and_then
                 (inlineEnvFlags (parentPath bd)
                    (s\<lparr>expressions :=
                         map (\<lambda>pc. (fst pc, snd (invoke (snd pc) ''DEBUG''))) (expressions s),
                       edits := edits s @ map (replacement ''DEBUG'') (expressions s)\<rparr>))
                 (cleanImports sc)"
    by (simp add: injectFlags_def DEBUG_def expand_total and_then_def)
next
  assume other: "(getBinding sc ''DEBUG'' = None
        \<or> (\<exists>bd. getBinding sc ''DEBUG'' = Some bd
             \<and> (kind bd \<noteq> ''module''
                 \<or> (\<exists>specs source. node (parentPath bd) = ImportDeclaration specs source
                       \<and> source \<noteq> ''@ember/env-flags''))))
       \<and> (expressions s \<noteq> [] \<longrightarrow> envFlags s ''DEBUG'' = Some d)"
  then have f: "hasDebugModule (getBinding sc ''DEBUG'') = Inr False"
    by (intro hasDebugModule_False) blast
  show "injectFlags sc p s =
             cleanImports sc
               (s\<lparr>expressions :=
                    map (\<lambda>pc. (fst pc, snd (invoke (snd pc) (generateUidIdentifier sc ''DEBUG''))))
                      (expressions s),
                  edits := edits s
                    @ (if expressions s = [] then []
                       else [Unshift (ref p)
                               (VariableDeclaration ''const''
                                  [VariableDeclarator
                                     (Identifier (generateUidIdentifier sc ''DEBUG''))
                                     (NumericLiteral d)])])
                    @ map (replacement (generateUidIdentifier sc ''DEBUG'')) (expressions s)\<rparr>)"
  proof (cases "expressions s = []")
    case True
    with f show ?thesis
      by (simp add: injectFlags_def DEBUG_def expand_total and_then_def Let_def)
  next
    case False
    with other have "envFlags s ''DEBUG'' = Some d" by blast
    with f False show ?thesis
      by (simp add: injectFlags_def DEBUG_def expand_total and_then_def injectDebug_def
          read_flag_def Let_def)
  qed
qed

theorem guard_binding_injector_witness:
  "(\<exists>s'. injectFlags
            \<lparr>getBinding = (\<lambda>n. if n = ''DEBUG'' then
                 Some \<lparr>kind = ''module'',
                       parentPath = \<lparr>ref = 1, node = ImportDeclaration
                          [\<lparr>imported = ''DEBUG'', local = ''DEBUG''\<rparr>] ''@ember/env-flags''\<rparr>\<rparr>
               else None),
             generateUidIdentifier = (\<lambda>n. ''_'' @ n)\<rparr>
            \<lparr>ref = 0, node = OtherNode ''Program''\<rparr>
            ((MacroBuilder ''1.0.0'' [''DEBUG'' \<mapsto> 1] None)
               \<lparr>expressions := [(\<lparr>ref = 5, node = ExpressionStatement
                   (CallExpression (Identifier ''warn'') [StringLiteral ''message''])\<rparr>,
                 buildLogicalExpressions [] (Identifier ''T''))]\<rparr>) = Done s'
        \<and> edits s' =
            [ReplaceWith 5 (ParenthesizedExpression
               (LogicalExpression ''&&'' (Identifier ''DEBUG'') (Identifier ''T''))),
             ReplaceWithMultiple 1
               [VariableDeclaration ''const''
                  [VariableDeclarator (Identifier ''DEBUG'') (NumericLiteral 1)]]])
   \<and> (\<exists>s'. injectFlags
            \<lparr>getBinding = (\<lambda>n. None), generateUidIdentifier = (\<lambda>n. ''_'' @ n)\<rparr>
            \<lparr>ref = 0, node = OtherNode ''Program''\<rparr>
            ((MacroBuilder ''1.0.0'' [''DEBUG'' \<mapsto> 1] None)
               \<lparr>expressions := [(\<lparr>ref = 5, node = ExpressionStatement
                   (CallExpression (Identifier ''warn'') [StringLiteral ''message''])\<rparr>,
                 buildLogicalExpressions [] (Identifier ''T''))]\<rparr>) = Done s'
        \<and> edits s' =
            [Unshift 0
               (VariableDeclaration ''const''
                  [VariableDeclarator (Identifier ''_DEBUG'') (NumericLiteral 1)]),
             ReplaceWith 5 (ParenthesizedExpression
               (LogicalExpression ''&&'' (Identifier ''_DEBUG'') (Identifier ''T'')))])"
proof -
  let ?imp = "\<lparr>ref = 1, node = ImportDeclaration
                 [\<lparr>imported = ''DEBUG'', local = ''DEBUG''\<rparr>] ''@ember/env-flags''\<rparr>"
  let ?bd = "\<lparr>kind = ''module'', parentPath = ?imp\<rparr>"
  let ?reuse = "\<lparr>getBinding = (\<lambda>n. if n = ''DEBUG'' then Some ?bd else None),
                 generateUidIdentifier = (\<lambda>n. ''_'' @ n)\<rparr>"
  let ?synth = "\<lparr>getBinding = (\<lambda>n. None), generateUidIdentifier = (\<lambda>n. ''_'' @ n)\<rparr>"
  let ?prog = "\<lparr>ref = 0, node = OtherNode ''Program''\<rparr>"
  let ?s = "(MacroBuilder ''1.0.0'' [''DEBUG'' \<mapsto> 1] None)
               \<lparr>expressions := [(\<lparr>ref = 5, node = ExpressionStatement
                   (CallExpression (Identifier ''warn'') [StringLiteral ''message''])\<rparr>,
                 buildLogicalExpressions [] (Identifier ''T''))]\<rparr>"
  have r: "getBinding ?reuse ''DEBUG'' = Some ?bd \<and> kind ?bd = ''module''
      \<and> node (parentPath ?bd) = ImportDeclaration
            [\<lparr>imported = ''DEBUG'', local = ''DEBUG''\<rparr>] ''@ember/env-flags''"
    by simp
  have o: "(getBinding ?synth ''DEBUG'' = None
        \<or> (\<exists>bd. getBinding ?synth ''DEBUG'' = Some bd
             \<and> (kind bd \<noteq> ''module''
                 \<or> (\<exists>specs source. node (parentPath bd) = ImportDeclaration specs source
                       \<and> source \<noteq> ''@ember/env-flags''))))
       \<and> (expressions ?s \<noteq> [] \<longrightarrow> envFlags ?s ''DEBUG'' = Some 1)"
    by (simp add: MacroBuilder_def)
  from guard_binding_injector [of ?reuse ?prog ?s 1] r
  have a: "injectFlags ?reuse ?prog ?s =
               and_then
                 (inlineEnvFlags (parentPath ?bd)
                    (?s\<lparr>expressions :=
                         map (\<lambda>pc. (fst pc, snd (invoke (snd pc) ''DEBUG''))) (expressions ?s),
                       edits := edits ?s @ map (replacement ''DEBUG'') (expressions ?s)\<rparr>))
                 (cleanImports ?reuse)"
    by blast
  from guard_binding_injector [of ?synth ?prog ?s 1] o
  have b: "injectFlags ?synth ?prog ?s =
             cleanImports ?synth
               (?s\<lparr>expressions :=
                    map (\<lambda>pc. (fst pc, snd (invoke (snd pc) (generateUidIdentifier ?synth ''DEBUG''))))
                      (expressions ?s),
                  edits := edits ?s
                    @ (if expressions ?s = [] then []
                       else [Unshift (ref ?prog)
                               (VariableDeclaration ''const''
                                  [VariableDeclarator
                                     (Identifier (generateUidIdentifier ?synth ''DEBUG''))
                                     (NumericLiteral 1)])])
                    @ map (replacement (generateUidIdentifier ?synth ''DEBUG'')) (expressions ?s)\<rparr>)"
    by blast
  have "\<exists>s'. injectFlags ?reuse ?prog ?s = Done s'
        \<and> edits s' =
            [ReplaceWith 5 (ParenthesizedExpression
               (LogicalExpression ''&&'' (Identifier ''DEBUG'') (Identifier ''T''))),
             ReplaceWithMultiple 1
               [VariableDeclaration ''const''
                  [VariableDeclarator (Identifier ''DEBUG'') (NumericLiteral 1)]]]"
    unfolding a
    by (simp add: MacroBuilder_def inlineEnvFlags_def cleanImports_def and_then_def
        replacement_def guard_chain_def buildLogicalExpressions_def read_flag_def)
  moreover have "\<exists>s'. injectFlags ?synth ?prog ?s = Done s'
        \<and> edits s' =
            [Unshift 0
               (VariableDeclaration ''const''
                  [VariableDeclarator (Identifier ''_DEBUG'') (NumericLiteral 1)]),
             ReplaceWith 5 (ParenthesizedExpression
               (LogicalExpression ''&&'' (Identifier ''_DEBUG'') (Identifier ''T'')))]"
    unfolding b
    by (simp add: MacroBuilder_def cleanImports_def
        replacement_def guard_chain_def buildLogicalExpressions_def)
  ultimately show ?thesis by blast
qed

end
